theory Spec2Isabelle
  imports Main "HOL-Library.Sublist" "HOL-Library.Multiset"
begin

section \<open>The chat relay: data model\<close>

text \<open>
  The repository is an asyncio chat relay (\<^verbatim>\<open>src/server/main.py\<close>) and a Tkinter client
  (\<^verbatim>\<open>src/client/gui.py\<close>).  Sockets are compared by identity in the Python code, so a
  socket is modelled by a number.  Python \<^verbatim>\<open>bytes\<close> and \<^verbatim>\<open>str\<close> values are both byte
  strings here: the client's \<^verbatim>\<open>encode('utf-8')\<close> and \<^verbatim>\<open>decode('utf-8')\<close> are inverse to
  each other on the text that is sent, and the delimiter is plain ASCII.
\<close>

type_synonym sock = nat
type_synonym bytes = string

text \<open>The exceptions the code distinguishes in its \<^verbatim>\<open>except\<close> clauses, and
  \<^verbatim>\<open>ValueError\<close>, which \<^verbatim>\<open>list.remove\<close> raises for an absent element.\<close>

datatype exn = BlockingIOError | BrokenPipeError | ConnectionResetError | OSError | ValueError

text \<open>What one call of \<^verbatim>\<open>recv(1024)\<close> and one call of \<^verbatim>\<open>accept()\<close> can do.  An empty
  \<^verbatim>\<open>Recv\<close> is the orderly close of the peer.\<close>

datatype recv_event = Recv bytes | RecvRaises exn

datatype accept_event = Accepted sock string | AcceptRaises exn

text \<open>The tasks handed to \<^verbatim>\<open>aio.create_task\<close> (lines 124 and 158).\<close>

datatype task = HandleClientTask sock string | BroadcastTask bytes sock

text \<open>The lines the server prints, one constructor for each \<^verbatim>\<open>print\<close> of the loops.\<close>

datatype line =
    ErrorWhileReading exn
  | ClientDisconnected string
  | ErrorWhileBroadcasting string exn
  | ReceivedFrom string bytes
  | ClientLeft string
  | LengthOfClients nat
  | ConnectionEstablished string
  | ErrorInMainloop exn

text \<open>How far a coroutine got: still in its loop, returned, or ended by an exception
  that nothing caught.\<close>

datatype status = Running | Returned | Raised exn

text \<open>
  The state of the server process: the global list \<^verbatim>\<open>clients\<close>, the frames that
  \<^verbatim>\<open>sendall\<close> delivered (recipient and bytes, in order), the sockets closed by
  \<^verbatim>\<open>client_socket.close()\<close>, the tasks created, and the console.
\<close>

record server =
  clients :: "sock list"
  outbox :: "(sock \<times> bytes) list"
  closed :: "sock list"
  tasks :: "task list"
  console :: "line list"

definition EOF :: bytes where
  "EOF = ''<EOF>''"

text \<open>\<^verbatim>\<open>clients.remove(x)\<close>: the first occurrence is removed; an absent element raises.\<close>

definition list_remove :: "'a \<Rightarrow> 'a list \<Rightarrow> exn + 'a list" where
  "list_remove x xs = (if x \<in> set xs then Inr (remove1 x xs) else Inl ValueError)"

section \<open>The server\<close>

subsection \<open>\<^verbatim>\<open>readAll\<close> (lines 15 to 58)\<close>

text \<open>
  The socket is a script of the results of its successive \<^verbatim>\<open>recv\<close> calls; when the script
  is used up nothing more is ready, which a non-blocking socket reports as
  \<^verbatim>\<open>BlockingIOError\<close>.  The accumulator \<open>data\<close> is the local variable of the same name:
  it starts empty in every call and is dropped on both \<^verbatim>\<open>except\<close> paths, which return
  \<^verbatim>\<open>None\<close>.  The result is the returned pair, the rest of the script and the state.
\<close>

fun readAll_loop ::
  "bytes \<Rightarrow> recv_event list \<Rightarrow> server \<Rightarrow> (bytes option \<times> bool) \<times> recv_event list \<times> server" where
  "readAll_loop data [] st = ((None, True), [], st)"
| "readAll_loop data (Recv chunk # es) st =
     (if chunk = [] then ((Some (data @ chunk), False), es, st)
      else if suffix EOF (data @ chunk) then ((Some (data @ chunk), True), es, st)
      else readAll_loop (data @ chunk) es st)"
| "readAll_loop data (RecvRaises e # es) st =
     (if e = BlockingIOError then ((None, True), es, st)
      else ((None, False), es, st\<lparr>console := console st @ [ErrorWhileReading e]\<rparr>))"

definition readAll ::
  "recv_event list \<Rightarrow> server \<Rightarrow> (bytes option \<times> bool) \<times> recv_event list \<times> server" where
  "readAll es st = readAll_loop [] es st"

subsection \<open>\<^verbatim>\<open>broadcast\<close> (lines 60 to 100)\<close>

text \<open>
  \<open>getpeername s\<close> is the text \<^verbatim>\<open>str(s.getpeername())\<close>, and \<open>sendall c m\<close> says how
  \<^verbatim>\<open>c.sendall(m)\<close> ends: \<open>None\<close> when the frame is delivered, the exception otherwise.
  \<^verbatim>\<open>getpeername\<close> is taken to return for every socket, also in the \<^verbatim>\<open>except\<close> clauses, and
  a \<^verbatim>\<open>sendall\<close> that raises is taken to have delivered nothing.
  The loop runs over the copy \<^verbatim>\<open>clients[:]\<close> while the removals change \<^verbatim>\<open>clients\<close> itself.
  The task runs without interleaving with other tasks: its one suspension point, in the
  \<^verbatim>\<open>BlockingIOError\<close> branch, goes on with the next recipient.
\<close>

fun broadcast_loop ::
  "(sock \<Rightarrow> string) \<Rightarrow> (sock \<Rightarrow> bytes \<Rightarrow> exn option) \<Rightarrow> bytes \<Rightarrow> sock \<Rightarrow> sock list \<Rightarrow> server
     \<Rightarrow> exn option \<times> server" where
  "broadcast_loop getpeername sendall message sender [] st = (None, st)"
| "broadcast_loop getpeername sendall message sender (client # rest) st =
     (if client = sender then broadcast_loop getpeername sendall message sender rest st
      else if sendall client message = None
        then broadcast_loop getpeername sendall message sender rest
               (st\<lparr>outbox := outbox st @ [(client, message)]\<rparr>)
      else if sendall client message = Some BrokenPipeError
        then (case list_remove client (clients st) of
                Inl e \<Rightarrow> (Some e, st\<lparr>console := console st @ [ClientDisconnected (getpeername client)]\<rparr>)
              | Inr cl \<Rightarrow> broadcast_loop getpeername sendall message sender rest
                  (st\<lparr>clients := cl,
                      console := console st @ [ClientDisconnected (getpeername client)]\<rparr>))
      else if sendall client message = Some BlockingIOError
        then broadcast_loop getpeername sendall message sender rest st
      else (case list_remove client (clients st) of
                Inl e \<Rightarrow> (Some e, st\<lparr>console := console st @
                     [ErrorWhileBroadcasting (getpeername client) (the (sendall client message))]\<rparr>)
              | Inr cl \<Rightarrow> broadcast_loop getpeername sendall message sender rest
                  (st\<lparr>clients := cl,
                      console := console st @
                        [ErrorWhileBroadcasting (getpeername client) (the (sendall client message))]\<rparr>)))"

definition broadcast ::
  "(sock \<Rightarrow> string) \<Rightarrow> (sock \<Rightarrow> bytes \<Rightarrow> exn option) \<Rightarrow> bytes \<Rightarrow> sock \<Rightarrow> server
     \<Rightarrow> exn option \<times> server" where
  "broadcast getpeername sendall message sender st =
     (if length (clients st) < 2 then (None, st)
      else broadcast_loop getpeername sendall (getpeername sender @ '': '' @ message) sender
             (clients st) st)"

subsection \<open>\<^verbatim>\<open>handle_client\<close> (lines 102 to 132)\<close>

text \<open>Lines 129 to 132: the two prints, the removal from \<^verbatim>\<open>clients\<close>, the close.  When the
  removal raises, the close is not reached.\<close>

definition teardown :: "sock \<Rightarrow> string \<Rightarrow> server \<Rightarrow> status \<times> server" where
  "teardown client_socket add st =
     (let st1 = st\<lparr>console := console st @ [ClientLeft add, LengthOfClients (length (clients st))]\<rparr>
      in case list_remove client_socket (clients st1) of
           Inl e \<Rightarrow> (Raised e, st1)
         | Inr cl \<Rightarrow> (Returned, st1\<lparr>clients := cl, closed := closed st1 @ [client_socket]\<rparr>))"

text \<open>Lines 122 to 124: a truthy \<open>data\<close> (neither \<^verbatim>\<open>None\<close> nor empty) is printed and
  handed to a new broadcast task.  The task runs when the handler yields on line 125,
  before the handler reads again and with no other task in between; an exception that
  ends it stays in the task.\<close>

definition relay ::
  "(sock \<Rightarrow> string) \<Rightarrow> (sock \<Rightarrow> bytes \<Rightarrow> exn option) \<Rightarrow> sock \<Rightarrow> string \<Rightarrow> bytes option
     \<Rightarrow> server \<Rightarrow> server" where
  "relay getpeername sendall client_socket add data st =
     (case data of
        None \<Rightarrow> st
      | Some d \<Rightarrow>
          if d = [] then st
          else snd (broadcast getpeername sendall d client_socket
                 (st\<lparr>tasks := tasks st @ [BroadcastTask d client_socket],
                     console := console st @ [ReceivedFrom add d]\<rparr>)))"

lemma readAll_loop_shorter:
  "es \<noteq> [] \<Longrightarrow> length (fst (snd (readAll_loop data es st))) < length es"
proof (induction data es st rule: readAll_loop.induct)
  case (2 data chunk es st)
  then show ?case by (cases es) (auto simp: less_Suc_eq)
qed simp_all

text \<open>The \<^verbatim>\<open>while connected\<close> loop.  With the script used up the handler goes on polling
  and changes nothing: it is \<open>Running\<close>.  \<^verbatim>\<open>readAll\<close> catches every exception itself, so
  the \<^verbatim>\<open>except\<close> clause of line 126 is never entered.\<close>

function handle_loop ::
  "(sock \<Rightarrow> string) \<Rightarrow> (sock \<Rightarrow> bytes \<Rightarrow> exn option) \<Rightarrow> sock \<Rightarrow> string \<Rightarrow> recv_event list
     \<Rightarrow> server \<Rightarrow> status \<times> server" where
  "handle_loop getpeername sendall client_socket add es st =
     (if es = [] then (Running, st)
      else
        let r = readAll es st;
            data = fst (fst r);
            conn = snd (fst r);
            st2 = relay getpeername sendall client_socket add data (snd (snd r))
        in if conn then handle_loop getpeername sendall client_socket add (fst (snd r)) st2
           else teardown client_socket add st2)"
  by pat_completeness auto
termination
  by (relation "measure (\<lambda>(getpeername, sendall, client_socket, add, es, st). length es)")
     (auto simp: readAll_def readAll_loop_shorter)

definition handle_client ::
  "(sock \<Rightarrow> string) \<Rightarrow> (sock \<Rightarrow> bytes \<Rightarrow> exn option) \<Rightarrow> sock \<Rightarrow> string \<Rightarrow> recv_event list
     \<Rightarrow> server \<Rightarrow> status \<times> server" where
  "handle_client getpeername sendall client_socket add es st =
     handle_loop getpeername sendall client_socket add es
       (st\<lparr>clients := clients st @ [client_socket]\<rparr>)"

subsection \<open>The accept loop of \<^verbatim>\<open>main\<close> (lines 151 to 165)\<close>

text \<open>The listening socket is a script of the results of its \<^verbatim>\<open>accept\<close> calls.  The
  \<^verbatim>\<open>break\<close> of line 165 leaves the loop, and \<^verbatim>\<open>main\<close> returns.\<close>

fun main_loop :: "accept_event list \<Rightarrow> server \<Rightarrow> status \<times> server" where
  "main_loop [] st = (Running, st)"
| "main_loop (Accepted client_socket addr # es) st =
     main_loop es (st\<lparr>tasks := tasks st @ [HandleClientTask client_socket addr],
                      console := console st @ [ConnectionEstablished addr]\<rparr>)"
| "main_loop (AcceptRaises e # es) st =
     (if e = BlockingIOError then main_loop es st
      else (Returned, st\<lparr>console := console st @ [ErrorInMainloop e]\<rparr>))"

section \<open>The client\<close>

text \<open>\<^verbatim>\<open>str.replace(old, new)\<close>: the occurrences of \<open>old\<close> are replaced from the left,
  without overlap; an empty \<open>old\<close> matches before every character and at the end.\<close>

function replace_str :: "string \<Rightarrow> string \<Rightarrow> string \<Rightarrow> string" where
  "replace_str old new [] = (if old = [] then new else [])"
| "replace_str old new (c # cs) =
     (if old = [] then new @ c # replace_str old new cs
      else if prefix old (c # cs) then new @ replace_str old new (drop (length old) (c # cs))
      else c # replace_str old new cs)"
  by pat_completeness auto
termination
  by (relation "measure (\<lambda>(old, new, s). length s)") auto

text \<open>\<^verbatim>\<open>Window.send_message\<close> (lines 45 to 54): the bytes handed to the socket; an empty
  message box sends nothing.\<close>

definition encode_msg :: "string \<Rightarrow> bytes" where
  "encode_msg message = message @ ''<EOF>''"

definition send_message :: "string \<Rightarrow> bytes option" where
  "send_message message = (if message \<noteq> [] then Some (encode_msg message) else None)"

text \<open>\<^verbatim>\<open>Window.read\<close> (lines 119 to 123): the text inserted into the display for a
  non-empty \<open>msg\<close>, and that text without the line feed the display adds.\<close>

definition decode_msg :: "bytes \<Rightarrow> string" where
  "decode_msg msg = replace_str ''<EOF>'' '''' msg"

definition read_insert :: "bytes \<Rightarrow> string option" where
  "read_insert msg = (if msg \<noteq> [] then Some (decode_msg msg @ [CHR 0x0A]) else None)"

section \<open>Vocabulary of the statements\<close>






text \<open>A server with the given registry on which nothing has happened yet.\<close>

definition init :: "sock list \<Rightarrow> server" where
  "init cl = \<lparr>clients = cl, outbox = [], closed = [], tasks = [], console = []\<rparr>"


text \<open>The data of the broadcast tasks created so far, in order: what the read path has
  handed on as messages.\<close>

definition broadcasts :: "server \<Rightarrow> bytes list" where
  "broadcasts st =
     concat (map (\<lambda>t. case t of BroadcastTask d s \<Rightarrow> [d] | HandleClientTask s a \<Rightarrow> []) (tasks st))"

text \<open>The handler tasks the accept loop creates for a script, and the accept results that
  are errors other than the would-block condition.\<close>

definition accepted_tasks :: "accept_event list \<Rightarrow> task list" where
  "accepted_tasks es =
     concat (map (\<lambda>ev. case ev of Accepted s a \<Rightarrow> [HandleClientTask s a] | AcceptRaises e \<Rightarrow> []) es)"

definition fatal :: "accept_event \<Rightarrow> bool" where
  "fatal ev = (case ev of Accepted s a \<Rightarrow> False | AcceptRaises e \<Rightarrow> e \<noteq> BlockingIOError)"

section \<open>The delimiter inside a frame\<close>

lemma list_shape5:
  obtains "q = []" | a where "q = [a]" | a b where "q = [a, b]"
    | a b c where "q = [a, b, c]" | a b c d where "q = [a, b, c, d]"
    | a b c d e r where "q = a # b # c # d # e # r"
proof (cases q)
  case Nil then show ?thesis using that by blast
next
  case c1: (Cons a q1)
  show ?thesis
  proof (cases q1)
    case Nil then show ?thesis using that c1 by blast
  next
    case c2: (Cons b q2)
    show ?thesis
    proof (cases q2)
      case Nil then show ?thesis using that c1 c2 by blast
    next
      case c3: (Cons c q3)
      show ?thesis
      proof (cases q3)
        case Nil then show ?thesis using that c1 c2 c3 by blast
      next
        case c4: (Cons d q4)
        show ?thesis
        proof (cases q4)
          case Nil then show ?thesis using that c1 c2 c3 c4 by blast
        next
          case (Cons e r) then show ?thesis using that c1 c2 c3 c4 by blast
        qed
      qed
    qed
  qed
qed

text \<open>The delimiter starts with a character that occurs nowhere else in it, so an
  occurrence that starts inside \<open>q\<close> cannot run into an appended delimiter.\<close>

lemma prefix_EOF_append:
  "q \<noteq> [] \<Longrightarrow> prefix EOF (q @ EOF) \<Longrightarrow> prefix EOF q"
  by (cases q rule: list_shape5) (simp_all add: EOF_def)

lemma strip_frame:
  "\<not> sublist EOF p \<Longrightarrow> replace_str EOF [] (p @ EOF) = p"
proof (induction p)
  case Nil
  show ?case by (simp add: EOF_def)
next
  case (Cons c cs)
  from Cons.prems have np: "\<not> prefix EOF (c # cs)" and ns: "\<not> sublist EOF cs"
    by (simp_all add: sublist_Cons_right)
  have "\<not> prefix EOF ((c # cs) @ EOF)"
    using prefix_EOF_append[of "c # cs"] np by blast
  moreover have "EOF \<noteq> []" by (simp add: EOF_def)
  ultimately show ?case using Cons.IH[OF ns] by simp
qed



section \<open>Framing round trip of the client\<close>

text \<open>
  Claim C9.  For every payload that does not contain the delimiter \<^verbatim>\<open><EOF>\<close>, the frame
  that \<^verbatim>\<open>send_message\<close> builds for it (payload followed by the delimiter) is turned back
  into the payload by the decoding of \<^verbatim>\<open>read\<close>, which removes the delimiter's occurrences;
  the display receives that payload and a line feed.  The empty payload is never sent.
\<close>

theorem C9_framing_round_trip:
  assumes "\<not> sublist EOF p"
  shows "decode_msg (encode_msg p) = p
    \<and> (p \<noteq> [] \<longrightarrow> send_message p = Some (encode_msg p)
          \<and> read_insert (encode_msg p) = Some (p @ [CHR 0x0A]))"
proof -
  have "decode_msg (encode_msg p) = p"
    using strip_frame[OF assms] by (simp add: decode_msg_def encode_msg_def EOF_def)
  then show ?thesis
    by (simp add: send_message_def read_insert_def encode_msg_def)
qed

theorem C9_framing_round_trip_witness:
  "decode_msg (encode_msg ''hello'') = ''hello''
     \<and> send_message ''hello'' = Some ''hello<EOF>''
     \<and> read_insert ''hello<EOF>'' = Some (''hello'' @ [CHR 0x0A])"
proof -
  have h: "\<not> sublist EOF ''hello''" by (simp add: EOF_def sublist_code)
  show ?thesis using C9_framing_round_trip[OF h] by (simp add: encode_msg_def)
qed

section \<open>What \<^verbatim>\<open>broadcast\<close> does to the registry and the recipients\<close>









text \<open>
  Claim C8.  Broadcasting with fewer than two registered connections (an empty registry,
  or one connection, be it the origin or not) sends nothing, raises nothing and leaves
  the whole server state, the registry included, as it was.
\<close>

theorem C8_no_recipient:
  assumes "length (clients st) < 2"
  shows "broadcast getpeername sendall message sender st = (None, st)"
  using assms by (simp add: broadcast_def)

theorem C8_no_recipient_witness:
  "broadcast (\<lambda>_. ''peer'') (\<lambda>_ _. None) ''hi<EOF>'' 1 (init [1]) = (None, init [1])
   \<and> broadcast (\<lambda>_. ''peer'') (\<lambda>_ _. None) ''hi<EOF>'' 1 (init []) = (None, init [])"
proof -
  have a: "length (clients (init [1])) < 2" and b: "length (clients (init [])) < 2"
    by (simp_all add: init_def)
  show ?thesis
    using C8_no_recipient[OF a] C8_no_recipient[OF b] by simp
qed





section \<open>Reading a frame in several chunks\<close>





section \<open>One read of the handler\<close>













text \<open>
  Claim C6.  The frame of \<open>hello\<close> arrives as \<open>hel\<close>, a would-block, then the rest.  The
  first \<^verbatim>\<open>readAll\<close> call returns \<^verbatim>\<open>None\<close> on the would-block and its local buffer is
  lost with it, so the next call starts empty and the recipient gets a frame with the
  payload \<open>lo\<close>.  The same bytes in the same two chunks without the would-block are
  relayed whole.
\<close>

theorem C6_would_block_drops_partial_frame:
  "broadcasts (snd (handle_client (\<lambda>_. ''peer'') (\<lambda>_ _. None) 1 ''addr''
        [Recv ''hel'', RecvRaises BlockingIOError, Recv ''lo<EOF>''] (init [2]))) = [''lo<EOF>'']
   \<and> outbox (snd (handle_client (\<lambda>_. ''peer'') (\<lambda>_ _. None) 1 ''addr''
        [Recv ''hel'', RecvRaises BlockingIOError, Recv ''lo<EOF>''] (init [2]))) = [(2, ''peer: lo<EOF>'')]
   \<and> outbox (snd (handle_client (\<lambda>_. ''peer'') (\<lambda>_ _. None) 1 ''addr''
        [Recv ''hel'', Recv ''lo<EOF>''] (init [2]))) = [(2, ''peer: hello<EOF>'')]"
  by code_simp


section \<open>The accept loop\<close>

lemma main_loop_prefix:
  "list_all (\<lambda>ev. \<not> fatal ev) pre \<Longrightarrow>
   \<exists>st'. main_loop (pre @ es) st = main_loop es st'
     \<and> tasks st' = tasks st @ accepted_tasks pre \<and> clients st' = clients st"
proof (induction pre arbitrary: st)
  case Nil
  show ?case by (rule exI[of _ st]) (simp add: accepted_tasks_def)
next
  case (Cons ev pre)
  show ?case
  proof (cases ev)
    case (Accepted s a)
    then show ?thesis
      using Cons.IH[of "st\<lparr>tasks := tasks st @ [HandleClientTask s a],
                      console := console st @ [ConnectionEstablished a]\<rparr>"] Cons.prems
      by (auto simp: accepted_tasks_def)
  next
    case (AcceptRaises e)
    then show ?thesis
      using Cons.IH[of st] Cons.prems by (auto simp: accepted_tasks_def fatal_def)
  qed
qed

text \<open>
  Claim C5, as amended.  A would-block on \<^verbatim>\<open>accept\<close> lets the loop go on, and so does an
  accepted connection, for which a handler task is created.  Every other accept error
  is logged and then ends the loop through the \<^verbatim>\<open>break\<close> of line 165: the connections
  that come after it are never accepted.
\<close>

theorem C5_accept_error_ends_loop:
  assumes "list_all (\<lambda>ev. \<not> fatal ev) pre" and "e \<noteq> BlockingIOError"
  shows "fst (main_loop pre st) = Running
    \<and> fst (main_loop (pre @ AcceptRaises e # rest) st) = Returned
    \<and> tasks (snd (main_loop (pre @ AcceptRaises e # rest) st)) = tasks st @ accepted_tasks pre
    \<and> last (console (snd (main_loop (pre @ AcceptRaises e # rest) st))) = ErrorInMainloop e"
proof -
  from main_loop_prefix[OF assms(1), of "[]" st]
  have a: "fst (main_loop pre st) = Running" by auto
  from main_loop_prefix[OF assms(1), of "AcceptRaises e # rest" st]
  obtain st' where "main_loop (pre @ AcceptRaises e # rest) st = main_loop (AcceptRaises e # rest) st'"
    and "tasks st' = tasks st @ accepted_tasks pre" by blast
  then show ?thesis using a assms(2) by simp
qed

theorem C5_accept_error_ends_loop_witness:
  "fst (main_loop [AcceptRaises BlockingIOError, Accepted 7 ''a''] (init [])) = Running
   \<and> fst (main_loop ([AcceptRaises BlockingIOError, Accepted 7 ''a''] @ AcceptRaises OSError # [Accepted 8 ''b''])
         (init [])) = Returned
   \<and> tasks (snd (main_loop ([AcceptRaises BlockingIOError, Accepted 7 ''a''] @ AcceptRaises OSError # [Accepted 8 ''b''])
         (init []))) = [HandleClientTask 7 ''a'']"
proof -
  have a: "list_all (\<lambda>ev. \<not> fatal ev) [AcceptRaises BlockingIOError, Accepted 7 ''a'']"
    by (simp add: fatal_def)
  have b: "OSError \<noteq> BlockingIOError" by simp
  show ?thesis
    using C5_accept_error_ends_loop[OF a b, of "init []" "[Accepted 8 ''b'']"]
    by (simp add: init_def accepted_tasks_def)
qed

text \<open>The claim as first stated has the loop go on after the error and accept the pending
  connection; the loop has returned and no handler exists.\<close>

theorem C5_counterexample:
  "fst (main_loop [AcceptRaises OSError, Accepted 7 ''addr''] (init [])) = Returned
   \<and> tasks (snd (main_loop [AcceptRaises OSError, Accepted 7 ''addr''] (init []))) = []
   \<and> main_loop [AcceptRaises OSError, Accepted 7 ''addr''] (init [])
       \<noteq> main_loop [Accepted 7 ''addr''] ((init [])\<lparr>console := [ErrorInMainloop OSError]\<rparr>)"
  by (simp add: init_def)

end
